theory Spec2Isabelle
  imports Complex_Main "HOL-Library.Word"
begin

unbundle bit_operations_syntax

section \<open>Hardware bus\<close>

text \<open>
  The I2C bus object (\<open>smbus2.SMBus\<close>) is external.  Each of its three methods used by
  the program either returns or raises; a raise is the value \<open>None\<close> (for a write:
  \<open>False\<close>).  A byte read from the bus is an \<open>8 word\<close>; Python sees it as an unbounded
  integer in \<open>0..255\<close>, which is \<open>uint\<close> of the byte, and all further arithmetic is on
  \<open>int\<close>, where shifts never lose bits.
\<close>

type_synonym byte = "8 word"

record smbus =
  read_byte_data :: "int \<Rightarrow> int \<Rightarrow> byte option"
  read_i2c_block_data :: "int \<Rightarrow> int \<Rightarrow> nat \<Rightarrow> byte list option"
  write_byte_data :: "int \<Rightarrow> int \<Rightarrow> int \<Rightarrow> bool"

definition BME280_ADDRESS :: int where "BME280_ADDRESS = 0x77"
definition BME280_REGISTER_CHIPID :: int where "BME280_REGISTER_CHIPID = 0xD0"
definition BME280_REGISTER_CTRL_HUM :: int where "BME280_REGISTER_CTRL_HUM = 0xF2"
definition BME280_REGISTER_CTRL_MEAS :: int where "BME280_REGISTER_CTRL_MEAS = 0xF4"
definition BME280_REGISTER_CONFIG :: int where "BME280_REGISTER_CONFIG = 0xF5"
definition BME280_REGISTER_PRESS :: int where "BME280_REGISTER_PRESS = 0xF7"
definition BME280_REGISTER_DIG_T1 :: int where "BME280_REGISTER_DIG_T1 = 0x88"
definition BME280_REGISTER_DIG_H1 :: int where "BME280_REGISTER_DIG_H1 = 0xA1"
definition BME280_REGISTER_DIG_H2 :: int where "BME280_REGISTER_DIG_H2 = 0xE1"

section \<open>Register codec\<close>

text \<open>
  \<open>data[i]\<close> on a block shorter than two bytes raises IndexError inside the \<open>try\<close>, so
  it takes the same way out as a bus fault: the function returns 0.
\<close>

definition read_unsigned_short :: "smbus \<Rightarrow> int \<Rightarrow> int \<Rightarrow> bool \<Rightarrow> int" where
  "read_unsigned_short bus address register little_endian =
     (case read_i2c_block_data bus address register 2 of
        None \<Rightarrow> 0
      | Some data \<Rightarrow>
          if length data < 2 then 0
          else if little_endian then uint (data ! 0) + push_bit 8 (uint (data ! 1))
          else push_bit 8 (uint (data ! 0)) OR uint (data ! 1))"

definition read_signed_short :: "smbus \<Rightarrow> int \<Rightarrow> int \<Rightarrow> bool \<Rightarrow> int" where
  "read_signed_short bus address register little_endian =
     (case read_i2c_block_data bus address register 2 of
        None \<Rightarrow> 0
      | Some data \<Rightarrow>
          if length data < 2 then 0
          else
            let val = (if little_endian then uint (data ! 0) + push_bit 8 (uint (data ! 1))
                       else push_bit 8 (uint (data ! 0)) OR uint (data ! 1))
            in if val < 32768 then val else val - 65536)"

section \<open>Sensor initialisation\<close>

text \<open>
  The settle delays between the writes change no value and are left out.  The first
  raise of the sequence ends it with \<open>False\<close>.
\<close>

definition bme280_init :: "smbus \<Rightarrow> int \<Rightarrow> bool" where
  "bme280_init bus address =
     (case read_byte_data bus address BME280_REGISTER_CHIPID of
        None \<Rightarrow> False
      | Some chip_id \<Rightarrow>
          if uint chip_id \<noteq> 0x60 then False
          else if \<not> write_byte_data bus address 0xE0 0xB6 then False
          else if \<not> write_byte_data bus address BME280_REGISTER_CTRL_HUM 0x01 then False
          else if \<not> write_byte_data bus address BME280_REGISTER_CTRL_MEAS 0x23 then False
          else if \<not> write_byte_data bus address BME280_REGISTER_CONFIG 0x00 then False
          else True)"

section \<open>Calibration loader\<close>

record calibration =
  calib_T :: "int \<times> int \<times> int"
  calib_H :: "int \<times> int \<times> int \<times> int \<times> int \<times> int"

definition default_calibration :: calibration where
  "default_calibration =
     \<lparr>calib_T = (27504, 26435, -1000), calib_H = (75, 360, 0, 300, 50, 30)\<rparr>"

text \<open>
  The two codec reads never raise; each single-byte read may, and then the \<open>except\<close>
  branch returns the nominal coefficients.  The reads are written in the order of the
  source.
\<close>

definition read_calibration_data :: "smbus \<Rightarrow> int \<Rightarrow> calibration" where
  "read_calibration_data bus address =
     (let dig_T1 = read_unsigned_short bus address BME280_REGISTER_DIG_T1 True;
          dig_T2 = read_signed_short bus address (BME280_REGISTER_DIG_T1 + 2) True;
          dig_T3 = read_signed_short bus address (BME280_REGISTER_DIG_T1 + 4) True
      in case read_byte_data bus address BME280_REGISTER_DIG_H1 of
        None \<Rightarrow> default_calibration
      | Some h1 \<Rightarrow>
     (let dig_H1 = uint h1;
          dig_H2 = read_signed_short bus address BME280_REGISTER_DIG_H2 True
      in case read_byte_data bus address (BME280_REGISTER_DIG_H2 + 2) of
        None \<Rightarrow> default_calibration
      | Some h3 \<Rightarrow>
     (let dig_H3 = uint h3
      in case read_byte_data bus address (BME280_REGISTER_DIG_H2 + 3) of
        None \<Rightarrow> default_calibration
      | Some b4 \<Rightarrow>
       (case read_byte_data bus address (BME280_REGISTER_DIG_H2 + 4) of
        None \<Rightarrow> default_calibration
      | Some b5 \<Rightarrow>
       (case read_byte_data bus address (BME280_REGISTER_DIG_H2 + 5) of
        None \<Rightarrow> default_calibration
      | Some b6 \<Rightarrow>
     (let e4 = uint b4; e5 = uint b5; e6 = uint b6;
          dig_H4 = push_bit 4 e4 OR (e5 AND 0x0F);
          dig_H5 = push_bit 4 e6 OR drop_bit 4 e5
      in case read_byte_data bus address (BME280_REGISTER_DIG_H2 + 6) of
        None \<Rightarrow> default_calibration
      | Some b6' \<Rightarrow>
     (let raw_H6 = uint b6';
          dig_H6 = (if raw_H6 > 127 then raw_H6 - 256 else raw_H6)
      in \<lparr>calib_T = (dig_T1, dig_T2, dig_T3),
          calib_H = (dig_H1, dig_H2, dig_H3, dig_H4, dig_H5, dig_H6)\<rparr>)))))))"

section \<open>Raw sample\<close>

text \<open>
  The burst read of eight bytes.  A fault of the bus and a block shorter than eight bytes
  (IndexError) both end in the \<open>except\<close> branch, which returns three zeros.
\<close>

definition read_raw_data :: "smbus \<Rightarrow> int \<Rightarrow> int \<times> int \<times> int" where
  "read_raw_data bus address =
     (case read_i2c_block_data bus address BME280_REGISTER_PRESS 8 of
        None \<Rightarrow> (0, 0, 0)
      | Some data \<Rightarrow>
          if length data < 8 then (0, 0, 0)
          else
            let press_raw = push_bit 12 (uint (data ! 0)) OR push_bit 4 (uint (data ! 1))
                              OR drop_bit 4 (uint (data ! 2));
                temp_raw = push_bit 12 (uint (data ! 3)) OR push_bit 4 (uint (data ! 4))
                              OR drop_bit 4 (uint (data ! 5));
                hum_raw = push_bit 8 (uint (data ! 6)) OR uint (data ! 7)
            in (temp_raw, press_raw, hum_raw))"

section \<open>Compensation engine\<close>

text \<open>
  Python floats are modelled by the reals: the formulas below are the exact ones, without
  the rounding of binary64.  On typed arguments (integers for the raw codes and the
  coefficients) no operation of the three functions raises in this model, so their
  \<open>except\<close> branches (25.0 and 0; 50.0; the temperature) have no counterpart.

  \<open>py_int\<close> is Python's \<open>int()\<close> on a float: the fractional part is dropped.
\<close>

definition py_int :: "real \<Rightarrow> int" where
  "py_int x = (if x < 0 then \<lceil>x\<rceil> else \<lfloor>x\<rfloor>)"

definition compensate_temperature :: "int \<Rightarrow> int \<times> int \<times> int \<Rightarrow> real \<times> int" where
  "compensate_temperature raw_temp calib =
     (case calib of (dig_T1, dig_T2, dig_T3) \<Rightarrow>
        let var1 = ((of_int raw_temp / 16384) - (of_int dig_T1 / 1024)) * of_int dig_T2;
            var2 = (((of_int raw_temp / 131072) - (of_int dig_T1 / 8192)) ^ 2) * of_int dig_T3;
            t_fine = py_int (var1 + var2);
            temperature = of_int t_fine / 5120
        in (temperature, t_fine))"

definition compensate_humidity ::
  "int \<Rightarrow> int \<times> int \<times> int \<times> int \<times> int \<times> int \<Rightarrow> int \<Rightarrow> real" where
  "compensate_humidity raw_hum calib t_fine =
     (case calib of (dig_H1, dig_H2, dig_H3, dig_H4, dig_H5, dig_H6) \<Rightarrow>
        let var_h = of_int t_fine - 76800
        in if var_h \<noteq> 0 then
             let var_h1 = (of_int raw_hum - (of_int dig_H4 * 64 + of_int dig_H5 / 16384 * var_h)) *
                            (of_int dig_H2 / 65536 * (1 + of_int dig_H6 / 67108864 * var_h *
                               (1 + of_int dig_H3 / 67108864 * var_h)));
                 var_h2 = var_h1 * (1 - of_int dig_H1 * var_h1 / 524288)
             in max 0 (min 100 var_h2)
           else 0)"

definition calculate_heat_index :: "real \<Rightarrow> real \<Rightarrow> real" where
  "calculate_heat_index temperature humidity =
     (if temperature < 26 then temperature
      else
        let T = temperature; R = humidity
        in 0.363445176 + 0.988622465 * T + 0.008184780 * R +
           0.000144105 * T * R - 0.000054777 * T ^ 2 - 0.00121227 * R ^ 2 +
           0.000038646 * T ^ 2 * R + 0.000029039 * T * R ^ 2 - 0.00000187 * T ^ 2 * R ^ 2)"




section \<open>SHA-256 and HMAC\<close>

text \<open>
  \<open>hmac.new(key, msg, hashlib.sha256).hexdigest()\<close> is library code; it is modelled
  after FIPS 180-4 (SHA-256) and RFC 2104 (HMAC) on byte lists.  The round constants
  are the first 32 bits of the fractional parts of the cube roots of the first 64 primes,
  the initial state those of the square roots of the first 8 primes, both written in
  decimal.
\<close>

type_synonym word32 = "32 word"
type_synonym sha_state =
  "word32 \<times> word32 \<times> word32 \<times> word32 \<times> word32 \<times> word32 \<times> word32 \<times> word32"

definition sha256_K :: "word32 list" where
  "sha256_K =
     [1116352408, 1899447441, 3049323471, 3921009573,
      961987163, 1508970993, 2453635748, 2870763221,
      3624381080, 310598401, 607225278, 1426881987,
      1925078388, 2162078206, 2614888103, 3248222580,
      3835390401, 4022224774, 264347078, 604807628,
      770255983, 1249150122, 1555081692, 1996064986,
      2554220882, 2821834349, 2952996808, 3210313671,
      3336571891, 3584528711, 113926993, 338241895,
      666307205, 773529912, 1294757372, 1396182291,
      1695183700, 1986661051, 2177026350, 2456956037,
      2730485921, 2820302411, 3259730800, 3345764771,
      3516065817, 3600352804, 4094571909, 275423344,
      430227734, 506948616, 659060556, 883997877,
      958139571, 1322822218, 1537002063, 1747873779,
      1955562222, 2024104815, 2227730452, 2361852424,
      2428436474, 2756734187, 3204031479, 3329325298]"

definition sha256_H0 :: sha_state where
  "sha256_H0 =
     (1779033703, 3144134277, 1013904242, 2773480762,
      1359893119, 2600822924, 528734635, 1541459225)"

definition rotr :: "nat \<Rightarrow> word32 \<Rightarrow> word32" where
  "rotr n x = drop_bit n x OR push_bit (32 - n) x"

definition Ch :: "word32 \<Rightarrow> word32 \<Rightarrow> word32 \<Rightarrow> word32" where
  "Ch x y z = (x AND y) XOR (NOT x AND z)"

definition Maj :: "word32 \<Rightarrow> word32 \<Rightarrow> word32 \<Rightarrow> word32" where
  "Maj x y z = (x AND y) XOR (x AND z) XOR (y AND z)"

definition big_sigma0 :: "word32 \<Rightarrow> word32" where
  "big_sigma0 x = rotr 2 x XOR rotr 13 x XOR rotr 22 x"

definition big_sigma1 :: "word32 \<Rightarrow> word32" where
  "big_sigma1 x = rotr 6 x XOR rotr 11 x XOR rotr 25 x"

definition small_sigma0 :: "word32 \<Rightarrow> word32" where
  "small_sigma0 x = rotr 7 x XOR rotr 18 x XOR drop_bit 3 x"

definition small_sigma1 :: "word32 \<Rightarrow> word32" where
  "small_sigma1 x = rotr 17 x XOR rotr 19 x XOR drop_bit 10 x"

definition be_word32 :: "byte list \<Rightarrow> word32" where
  "be_word32 bs = foldl (\<lambda>acc b. push_bit 8 acc OR ucast b) 0 bs"

definition word32_bytes :: "word32 \<Rightarrow> byte list" where
  "word32_bytes w = [ucast (drop_bit 24 w), ucast (drop_bit 16 w), ucast (drop_bit 8 w), ucast w]"

definition length_bytes :: "nat \<Rightarrow> byte list" where
  "length_bytes n =
     (let w = (word_of_nat n :: 64 word)
      in map (\<lambda>i. ucast (drop_bit (8 * (7 - i)) w)) [0 ..< 8])"

definition sha256_pad :: "byte list \<Rightarrow> byte list" where
  "sha256_pad m =
     m @ [0x80] @ replicate ((119 - length m mod 64) mod 64) 0 @ length_bytes (8 * length m)"

fun block_words :: "nat \<Rightarrow> byte list \<Rightarrow> word32 list" where
  "block_words 0 bs = []"
| "block_words (Suc n) bs = be_word32 (take 4 bs) # block_words n (drop 4 bs)"

fun extend_schedule :: "nat \<Rightarrow> word32 list \<Rightarrow> word32 list" where
  "extend_schedule 0 w = w"
| "extend_schedule (Suc n) w =
     (let t = length w
      in extend_schedule n
           (w @ [small_sigma1 (w ! (t - 2)) + w ! (t - 7) + small_sigma0 (w ! (t - 15)) + w ! (t - 16)]))"

fun sha256_round :: "sha_state \<Rightarrow> word32 \<times> word32 \<Rightarrow> sha_state" where
  "sha256_round (a, b, c, d, e, f, g, h) (k, w) =
     (let T1 = h + big_sigma1 e + Ch e f g + k + w;
          T2 = big_sigma0 a + Maj a b c
      in (T1 + T2, a, b, c, d + T1, e, f, g))"

fun add_state :: "sha_state \<Rightarrow> sha_state \<Rightarrow> sha_state" where
  "add_state (a, b, c, d, e, f, g, h) (a', b', c', d', e', f', g', h') =
     (a + a', b + b', c + c', d + d', e + e', f + f', g + g', h + h')"

definition sha256_compress :: "sha_state \<Rightarrow> byte list \<Rightarrow> sha_state" where
  "sha256_compress H block =
     (let W = extend_schedule 48 (block_words 16 block)
      in add_state H (foldl sha256_round H (zip sha256_K W)))"

function sha256_blocks :: "sha_state \<Rightarrow> byte list \<Rightarrow> sha_state" where
  "sha256_blocks H bs =
     (if length bs < 64 then H
      else sha256_blocks (sha256_compress H (take 64 bs)) (drop 64 bs))"
  by pat_completeness auto
termination
  by (relation "measure (\<lambda>(H, bs). length bs)") auto

declare sha256_blocks.simps [simp del]

fun state_bytes :: "sha_state \<Rightarrow> byte list" where
  "state_bytes (a, b, c, d, e, f, g, h) =
     word32_bytes a @ word32_bytes b @ word32_bytes c @ word32_bytes d @
     word32_bytes e @ word32_bytes f @ word32_bytes g @ word32_bytes h"

definition sha256 :: "byte list \<Rightarrow> byte list" where
  "sha256 m = state_bytes (sha256_blocks sha256_H0 (sha256_pad m))"

definition hmac_sha256 :: "byte list \<Rightarrow> byte list \<Rightarrow> byte list" where
  "hmac_sha256 key msg =
     (let k0 = (if length key > 64 then sha256 key else key);
          k = k0 @ replicate (64 - length k0) 0;
          inner = sha256 (map (\<lambda>b. b XOR 0x36) k @ msg)
      in sha256 (map (\<lambda>b. b XOR 0x5c) k @ inner))"

definition hex_digit :: "byte \<Rightarrow> char" where
  "hex_digit n = ''0123456789abcdef'' ! unat (n AND 0x0F)"

definition hexdigest :: "byte list \<Rightarrow> string" where
  "hexdigest bs = concat (map (\<lambda>b. [hex_digit (drop_bit 4 b), hex_digit b]) bs)"

text \<open>\<open>str.upper()\<close> on the characters that can occur here (ASCII).\<close>

definition upper_char :: "char \<Rightarrow> char" where
  "upper_char c =
     (if (97::nat) \<le> of_char c \<and> of_char c \<le> (122::nat) then char_of (of_char c - (32::nat)) else c)"

definition upper :: "string \<Rightarrow> string" where
  "upper s = map upper_char s"

text \<open>
  A Python string is modelled by the \<open>string\<close> of its UTF-8 bytes, so that
  \<open>encode('utf-8')\<close> reads each character as its byte.
\<close>

definition encode_utf8 :: "string \<Rightarrow> byte list" where
  "encode_utf8 s = map of_char s"

text \<open>\<open>str()\<close> of an integer: its decimal digits, after a minus sign when negative.\<close>

fun str_nat :: "nat \<Rightarrow> string" where
  "str_nat n =
     (if n < 10 then [''0123456789'' ! n]
      else str_nat (n div 10) @ [''0123456789'' ! (n mod 10)])"

declare str_nat.simps [simp del]

definition str_int :: "int \<Rightarrow> string" where
  "str_int i = (if i < 0 then CHR ''-'' # str_nat (nat (- i)) else str_nat (nat i))"

section \<open>Signature function\<close>

text \<open>
  \<open>if access_token:\<close> is false for \<open>None\<close> and for the empty string.  The parameter
  \<open>body\<close> is accepted and never read.
\<close>

definition generate_signature ::
  "string \<Rightarrow> string \<Rightarrow> int \<Rightarrow> string option \<Rightarrow> string option \<Rightarrow> string" where
  "generate_signature client_id client_secret timestamp access_token body =
     (let string_to_sign = client_id;
          string_to_sign = (case access_token of
                              None \<Rightarrow> string_to_sign
                            | Some tok \<Rightarrow> if tok \<noteq> [] then string_to_sign @ tok else string_to_sign);
          string_to_sign = string_to_sign @ str_int timestamp
      in upper (hexdigest (hmac_sha256 (encode_utf8 client_secret) (encode_utf8 string_to_sign))))"

section \<open>Program state, configuration and the outside world\<close>

text \<open>
  The module's mutable globals are one record, passed in and returned.  The dictionary
  \<open>sensor_data\<close> has three fixed keys, each \<open>None\<close> or a float; the fields carry
  the keys' names after \<open>sd_\<close>.
\<close>

record sensor_data =
  sd_temperature :: "real option"
  sd_humidity :: "real option"
  sd_heat_index :: "real option"

record globals =
  sensor_data :: sensor_data
  last_tuya_update :: real
  TUYA_ACCESS_TOKEN :: "string option"
  TUYA_TOKEN_EXPIRY :: real

definition initial_globals :: globals where
  "initial_globals =
     \<lparr>sensor_data = \<lparr>sd_temperature = None, sd_humidity = None, sd_heat_index = None\<rparr>,
      last_tuya_update = 0, TUYA_ACCESS_TOKEN = None, TUYA_TOKEN_EXPIRY = 0\<rparr>"

definition unavailable :: sensor_data where
  "unavailable = \<lparr>sd_temperature = None, sd_humidity = None, sd_heat_index = None\<rparr>"

text \<open>The three values read from the process environment at start-up.\<close>

record config =
  TUYA_CLIENT_ID :: string
  TUYA_CLIENT_SECRET :: string
  TUYA_DEVICE_ID :: string

definition TUYA_ENDPOINT :: string where "TUYA_ENDPOINT = ''https://openapi.tuyain.com''"
definition TUYA_TEMP_DP_ID :: string where "TUYA_TEMP_DP_ID = ''101''"
definition TUYA_HUMID_DP_ID :: string where "TUYA_HUMID_DP_ID = ''102''"
definition TUYA_HEAT_DP_ID :: string where "TUYA_HEAT_DP_ID = ''103''"
definition tuya_update_interval :: real where "tuya_update_interval = 300"

text \<open>
  A reply of the cloud: the request raised (\<open>Fault\<close>), or it returned a status code and
  a body.  The body is \<open>None\<close> when \<open>response.json()\<close> raises.  Of a decoded body the
  program reads the truth value of \<open>data.get("success", False)\<close> and the two entries
  of \<open>data["result"]\<close>, each \<open>None\<close> when its lookup raises.
\<close>

record api_body =
  success :: bool
  result_access_token :: "string option"
  result_expire_time :: "real option"

datatype http_reply = Fault | Reply int "api_body option"

text \<open>
  What one call of \<open>send_to_tuya\<close> reads from the outside, in the order of the source:
  the clock of the expiry test, the clock and the reply inside \<open>get_tuya_token\<close>, the
  clock when the expiry is stored, the clock of the push and its reply.
\<close>

record cloud_io =
  time_check :: real
  time_token :: real
  token_reply :: http_reply
  time_expiry :: real
  time_push :: real
  push_reply :: http_reply

record token_headers =
  th_client_id :: string
  th_sign :: string
  th_sign_method :: string
  th_t :: string

record push_headers =
  ph_client_id :: string
  ph_access_token :: "string option"
  ph_sign_method :: string
  ph_t :: string
  ph_sign :: string

text \<open>
  What the program does to the outside: the two kinds of request, and the waits of the
  sampling loop.  A command entry is the pair of its \<open>code\<close> and its \<open>value\<close>.
\<close>

datatype event =
    HttpGet string token_headers
  | HttpPost string push_headers "(string \<times> int) list"
  | Sleep real

fun is_token_request :: "event \<Rightarrow> bool" where
  "is_token_request (HttpGet url h) = True"
| "is_token_request e = False"

fun is_push_request :: "event \<Rightarrow> bool" where
  "is_push_request (HttpPost url h cs) = True"
| "is_push_request e = False"

section \<open>Token manager\<close>

text \<open>
  The token is assigned before the expiry is computed, so a body without
  \<open>expire_time\<close> leaves the new token with the old expiry and the call returns
  \<open>False\<close>.
\<close>

definition get_tuya_token :: "config \<Rightarrow> cloud_io \<Rightarrow> globals \<Rightarrow> bool \<times> globals \<times> event list" where
  "get_tuya_token cfg io s =
     (let t_ms = py_int (time_token io * 1000);
          url = TUYA_ENDPOINT @ ''/v1.0/token?grant_type=1'';
          signature = generate_signature (TUYA_CLIENT_ID cfg) (TUYA_CLIENT_SECRET cfg) t_ms None None;
          headers = \<lparr>th_client_id = TUYA_CLIENT_ID cfg, th_sign = signature,
                     th_sign_method = ''HMAC-SHA256'', th_t = str_int t_ms\<rparr>;
          ev = [HttpGet url headers]
      in case token_reply io of
           Fault \<Rightarrow> (False, s, ev)
         | Reply status_code body \<Rightarrow>
             if status_code = 200 then
               (case body of
                  None \<Rightarrow> (False, s, ev)
                | Some data \<Rightarrow>
                    if success data then
                      (case result_access_token data of
                         None \<Rightarrow> (False, s, ev)
                       | Some tok \<Rightarrow>
                           let s1 = s\<lparr>TUYA_ACCESS_TOKEN := Some tok\<rparr>
                           in (case result_expire_time data of
                                 None \<Rightarrow> (False, s1, ev)
                               | Some expire_time \<Rightarrow>
                                   (True,
                                    s1\<lparr>TUYA_TOKEN_EXPIRY := time_expiry io + expire_time - 60\<rparr>,
                                    ev)))
                    else (False, s, ev))
             else (False, s, ev))"

section \<open>Cloud sync\<close>

definition token_needs_refresh :: "cloud_io \<Rightarrow> globals \<Rightarrow> bool" where
  "token_needs_refresh io s =
     (case TUYA_ACCESS_TOKEN s of
        None \<Rightarrow> True
      | Some tok \<Rightarrow> tok = [] \<or> time_check io > TUYA_TOKEN_EXPIRY s)"

definition send_to_tuya ::
  "config \<Rightarrow> cloud_io \<Rightarrow> globals \<Rightarrow> real \<Rightarrow> real \<Rightarrow> real \<Rightarrow> bool \<times> globals \<times> event list" where
  "send_to_tuya cfg io s temperature humidity heat_index =
     (let (ok, s1, ev1) = (if token_needs_refresh io s then get_tuya_token cfg io s
                           else (True, s, []))
      in if \<not> ok then (False, s1, ev1)
         else
           let t_ms = py_int (time_push io * 1000);
               commands = [(TUYA_TEMP_DP_ID, py_int (temperature * 10)),
                           (TUYA_HUMID_DP_ID, py_int (humidity * 10)),
                           (TUYA_HEAT_DP_ID, py_int (heat_index * 10))];
               url = TUYA_ENDPOINT @ ''/v1.0/devices/'' @ TUYA_DEVICE_ID cfg @ ''/commands'';
               signature = generate_signature (TUYA_CLIENT_ID cfg) (TUYA_CLIENT_SECRET cfg) t_ms
                             (TUYA_ACCESS_TOKEN s1) None;
               headers = \<lparr>ph_client_id = TUYA_CLIENT_ID cfg,
                          ph_access_token = TUYA_ACCESS_TOKEN s1,
                          ph_sign_method = ''HMAC-SHA256'', ph_t = str_int t_ms,
                          ph_sign = signature\<rparr>;
               ev = ev1 @ [HttpPost url headers commands]
           in case push_reply io of
                Fault \<Rightarrow> (False, s1, ev)
              | Reply status_code body \<Rightarrow>
                  if status_code = 200 then
                    (case body of
                       None \<Rightarrow> (False, s1, ev)
                     | Some result \<Rightarrow> if success result then (True, s1, ev) else (False, s1, ev))
                  else (False, s1, ev))"

text \<open>The command entries of the push requests among a list of events.\<close>

fun pushed_commands :: "event list \<Rightarrow> (string \<times> int) list list" where
  "pushed_commands [] = []"
| "pushed_commands (HttpPost url h cs # es) = cs # pushed_commands es"
| "pushed_commands (e # es) = pushed_commands es"


section \<open>Acquisition loop\<close>

text \<open>
  One pass of the \<open>while True\<close> body.  It reads the bus as it is during that pass, the
  clock once, and whatever \<open>send_to_tuya\<close> reads.  Every function called in the body
  catches its own exceptions, so the body has no raising branch.
\<close>

record cycle_io =
  cycle_bus :: smbus
  time_loop :: real
  cloud :: cloud_io

definition invalid_reading :: "int \<Rightarrow> int \<Rightarrow> bool" where
  "invalid_reading temp_raw hum_raw \<longleftrightarrow>
     temp_raw \<in> set [0x80000, 0xFFFFF] \<or> hum_raw \<in> set [0x8000, 0xFFFF]"

definition loop_body :: "config \<Rightarrow> calibration \<Rightarrow> cycle_io \<Rightarrow> globals \<Rightarrow> globals \<times> event list" where
  "loop_body cfg calib_data io s =
     (case read_raw_data (cycle_bus io) BME280_ADDRESS of (temp_raw, press_raw, hum_raw) \<Rightarrow>
        if invalid_reading temp_raw hum_raw then (s, [Sleep 1])
        else
          case compensate_temperature temp_raw (calib_T calib_data) of (temperature, t_fine) \<Rightarrow>
            let humidity = compensate_humidity hum_raw (calib_H calib_data) t_fine;
                heat_index = calculate_heat_index temperature humidity;
                s1 = s\<lparr>sensor_data := \<lparr>sd_temperature = Some temperature,
                                       sd_humidity = Some humidity,
                                       sd_heat_index = Some heat_index\<rparr>\<rparr>;
                current_time = time_loop io
            in if current_time - last_tuya_update s1 \<ge> tuya_update_interval then
                 (case send_to_tuya cfg (cloud io) s1 temperature humidity heat_index of
                    (ok, s2, ev) \<Rightarrow>
                      if ok then (s2\<lparr>last_tuya_update := current_time\<rparr>, ev @ [Sleep 2])
                      else (s2, ev @ [Sleep 2]))
               else (s1, [Sleep 2]))"

text \<open>
  The loop has no exit; the list of passes is its fuel, and the result is the state and
  the events after that many passes.
\<close>

fun sampling_loop ::
  "config \<Rightarrow> calibration \<Rightarrow> cycle_io list \<Rightarrow> globals \<Rightarrow> globals \<times> event list" where
  "sampling_loop cfg calib_data [] s = (s, [])"
| "sampling_loop cfg calib_data (io # ios) s =
     (case loop_body cfg calib_data io s of (s1, ev1) \<Rightarrow>
        case sampling_loop cfg calib_data ios s1 of (s2, ev2) \<Rightarrow> (s2, ev1 @ ev2))"

definition update_sensor_data ::
  "config \<Rightarrow> smbus \<Rightarrow> cycle_io list \<Rightarrow> globals \<Rightarrow> globals \<times> event list" where
  "update_sensor_data cfg bus ios s =
     (if \<not> bme280_init bus BME280_ADDRESS then (s\<lparr>sensor_data := unavailable\<rparr>, [])
      else
        let calib_data = read_calibration_data bus BME280_ADDRESS
        in sampling_loop cfg calib_data ios s)"

section \<open>Reference readings and fixtures\<close>

text \<open>
  The specification's reading of a two-byte register: the unsigned 16-bit value of the
  pair in the stated byte order.
\<close>

definition spec_unsigned16 :: "bool \<Rightarrow> byte \<Rightarrow> byte \<Rightarrow> int" where
  "spec_unsigned16 little_endian b0 b1 =
     (if little_endian then uint b0 + 256 * uint b1 else 256 * uint b0 + uint b1)"

text \<open>A bus on which every block read returns the same bytes and every byte read raises.\<close>

definition block_bus :: "byte list \<Rightarrow> smbus" where
  "block_bus data =
     \<lparr>read_byte_data = (\<lambda>address register. None),
      read_i2c_block_data = (\<lambda>address register n. Some data),
      write_byte_data = (\<lambda>address register v. True)\<rparr>"

text \<open>A bus whose byte registers are given by a table and on which every block read raises.\<close>

definition register_bus :: "(int \<times> byte) list \<Rightarrow> smbus" where
  "register_bus table =
     \<lparr>read_byte_data = (\<lambda>address register. map_of table register),
      read_i2c_block_data = (\<lambda>address register n. None),
      write_byte_data = (\<lambda>address register v. True)\<rparr>"

definition packed_example :: "(int \<times> byte) list" where
  "packed_example =
     [(0xA1, 75), (0xE3, 0), (0xE4, 0x12), (0xE5, 0x34), (0xE6, 0x56), (0xE7, 0xE2)]"

definition humidity_H4 :: "calibration \<Rightarrow> int" where
  "humidity_H4 c = (case calib_H c of (h1, h2, h3, h4, h5, h6) \<Rightarrow> h4)"

definition humidity_H5 :: "calibration \<Rightarrow> int" where
  "humidity_H5 c = (case calib_H c of (h1, h2, h3, h4, h5, h6) \<Rightarrow> h5)"

definition humidity_H6 :: "calibration \<Rightarrow> int" where
  "humidity_H6 c = (case calib_H c of (h1, h2, h3, h4, h5, h6) \<Rightarrow> h6)"

text \<open>
  The sum \<open>var1 + var2\<close> of \<open>compensate_temperature\<close>, before it is cut to an integer.
\<close>

definition temperature_var_sum :: "int \<Rightarrow> int \<times> int \<times> int \<Rightarrow> real" where
  "temperature_var_sum raw calib =
     (case calib of (T1, T2, T3) \<Rightarrow>
        (of_int raw / 16384 - of_int T1 / 1024) * of_int T2 +
        ((of_int raw / 131072 - of_int T1 / 8192) ^ 2) * of_int T3)"

text \<open>
  The string to sign as the specification words it: the client identifier, the access
  token if present, the timestamp string.
\<close>

definition spec_string_to_sign :: "string \<Rightarrow> string option \<Rightarrow> int \<Rightarrow> string" where
  "spec_string_to_sign client_id access_token timestamp =
     client_id @ (case access_token of None \<Rightarrow> [] | Some tok \<Rightarrow> tok) @ str_int timestamp"

text \<open>A configuration, cloud replies and a cloud interaction to run the cloud path on.\<close>

definition example_config :: config where
  "example_config =
     \<lparr>TUYA_CLIENT_ID = ''your_client_id'', TUYA_CLIENT_SECRET = ''your_client_secret'',
      TUYA_DEVICE_ID = ''your_device_id''\<rparr>"

definition granted :: http_reply where
  "granted =
     Reply 200 (Some \<lparr>success = True, result_access_token = Some ''token'',
                       result_expire_time = Some 7200\<rparr>)"

definition accepted :: http_reply where
  "accepted =
     Reply 200 (Some \<lparr>success = True, result_access_token = None, result_expire_time = None\<rparr>)"

definition example_cloud :: "http_reply \<Rightarrow> http_reply \<Rightarrow> cloud_io" where
  "example_cloud token_answer push_answer =
     \<lparr>time_check = 1000, time_token = 1000, token_reply = token_answer,
      time_expiry = 1001, time_push = 1002, push_reply = push_answer\<rparr>"


text \<open>
  The reading that one pass publishes from a raw temperature and a raw humidity code:
  the three compensation steps in the order of the loop body.
\<close>

definition reading_of :: "calibration \<Rightarrow> int \<Rightarrow> int \<Rightarrow> sensor_data" where
  "reading_of calib_data temp_raw hum_raw =
     (let temperature = fst (compensate_temperature temp_raw (calib_T calib_data));
          t_fine = snd (compensate_temperature temp_raw (calib_T calib_data));
          humidity = compensate_humidity hum_raw (calib_H calib_data) t_fine
      in \<lparr>sd_temperature = Some temperature, sd_humidity = Some humidity,
          sd_heat_index = Some (calculate_heat_index temperature humidity)\<rparr>)"

text \<open>
  Two bursts: one whose temperature field is the code \<open>0x80000\<close>, and an ordinary one
  (temperature code \<open>0x7EEC0\<close>, humidity code \<open>0x7530\<close>).
\<close>

definition sentinel_burst :: "byte list" where
  "sentinel_burst = [0x50, 0x00, 0x00, 0x80, 0x00, 0x00, 0x75, 0x30]"

definition ordinary_burst :: "byte list" where
  "ordinary_burst = [0x50, 0x00, 0x00, 0x7E, 0xEC, 0x00, 0x75, 0x30]"

definition example_cycle :: "smbus \<Rightarrow> http_reply \<Rightarrow> http_reply \<Rightarrow> cycle_io" where
  "example_cycle bus token_answer push_answer =
     \<lparr>cycle_bus = bus, time_loop = 1000, cloud = example_cloud token_answer push_answer\<rparr>"

section \<open>Properties\<close>

subsection \<open>Bytes and bits\<close>

lemma uint_byte_bounds: "0 \<le> uint (b::byte) \<and> uint b < 256"
  using uint_lt2p [of b] by simp

lemma or_bytes: "0 \<le> y \<Longrightarrow> y < 256 \<Longrightarrow> push_bit 8 (x::int) OR y = 256 * x + y"
proof -
  assume a: "0 \<le> y" "y < 256"
  have t: "take_bit 8 y = y" using a by (simp add: take_bit_int_eq_self)
  then have "push_bit 8 x OR y = concat_bit 8 y x" by (simp add: concat_bit_def or.commute)
  also have "\<dots> = take_bit 8 y + push_bit 8 x" by (rule concat_bit_eq)
  finally show ?thesis using t by (simp add: push_bit_eq_mult)
qed

lemma or_nibbles: "0 \<le> y \<Longrightarrow> y < 16 \<Longrightarrow> push_bit 4 (x::int) OR y = 16 * x + y"
proof -
  assume a: "0 \<le> y" "y < 16"
  have t: "take_bit 4 y = y" using a by (simp add: take_bit_int_eq_self)
  then have "push_bit 4 x OR y = concat_bit 4 y x" by (simp add: concat_bit_def or.commute)
  also have "\<dots> = take_bit 4 y + push_bit 4 x" by (rule concat_bit_eq)
  finally show ?thesis using t by (simp add: push_bit_eq_mult)
qed

lemma and_15_mod: "(x::int) AND 0x0F = x mod 16"
proof -
  have "x AND mask 4 = x mod 2 ^ 4"
    by (simp only: take_bit_eq_mask [symmetric] take_bit_eq_mod)
  then show ?thesis by (simp add: mask_eq_exp_minus_1)
qed

lemma be_pair: "push_bit 8 (uint (b0::byte)) OR uint (b1::byte) = 256 * uint b0 + uint b1"
  using uint_byte_bounds [of b1] by (simp add: or_bytes)

lemma le_pair: "uint (b0::byte) + push_bit 8 (uint (b1::byte)) = uint b0 + 256 * uint b1"
  by (simp add: push_bit_eq_mult)

lemma shifted_mod:
  fixes k m :: int
  assumes "0 \<le> k" "k < 2 * m"
  shows "(k + m) mod (2 * m) - m = (if k < m then k else k - 2 * m)"
proof (cases "k < m")
  case True
  then have "(k + m) mod (2 * m) = k + m"
    using assms by (simp add: mod_pos_pos_trivial)
  then show ?thesis using True by simp
next
  case False
  have "k + m = k - m + 2 * m" by simp
  then have "(k + m) mod (2 * m) = (k - m + 2 * m) mod (2 * m)" by (rule arg_cong)
  also have "\<dots> = (k - m) mod (2 * m)" by (simp only: mod_add_self2)
  also have "\<dots> = k - m" using False assms by (simp add: mod_pos_pos_trivial)
  finally show ?thesis using False by simp
qed

lemma signed_adjust8:
  fixes k :: int
  assumes "0 \<le> k" "k < 256"
  shows "signed_take_bit 7 k = (if k > 127 then k - 256 else k)"
proof -
  have "signed_take_bit 7 k = (k + 128) mod (2 * 128) - 128"
    by (simp add: signed_take_bit_eq_take_bit_shift take_bit_eq_mod)
  also have "\<dots> = (if k < 128 then k else k - 2 * 128)"
    using assms by (intro shifted_mod) simp_all
  finally show ?thesis by auto
qed

lemma signed_adjust16:
  fixes k :: int
  assumes "0 \<le> k" "k < 65536"
  shows "signed_take_bit 15 k = (if k < 32768 then k else k - 65536)"
proof -
  have "signed_take_bit 15 k = (k + 32768) mod (2 * 32768) - 32768"
    by (simp add: signed_take_bit_eq_take_bit_shift take_bit_eq_mod)
  also have "\<dots> = (if k < 32768 then k else k - 2 * 32768)"
    using assms by (intro shifted_mod) simp_all
  finally show ?thesis by simp
qed

lemma sint_byte: "sint (b::byte) = (if uint b > 127 then uint b - 256 else uint b)"
  using uint_byte_bounds [of b] by (simp add: sint_uint signed_adjust8)

lemma sint16_of_int:
  fixes k :: int
  assumes "0 \<le> k" "k < 65536"
  shows "sint (word_of_int k :: 16 word) = (if k < 32768 then k else k - 65536)"
proof -
  have "uint (word_of_int k :: 16 word) = k"
    using assms by (simp add: uint_word_of_int_eq take_bit_int_eq_self)
  then show ?thesis using assms by (simp add: sint_uint signed_adjust16)
qed

subsection \<open>Register codec\<close>

lemma spec_unsigned16_range:
  "0 \<le> spec_unsigned16 le b0 b1 \<and> spec_unsigned16 le b0 b1 < 65536"
  using uint_byte_bounds [of b0] uint_byte_bounds [of b1] by (auto simp: spec_unsigned16_def)

lemma read_unsigned_short_pair:
  assumes "read_i2c_block_data bus a r 2 = Some [b0, b1]"
  shows "read_unsigned_short bus a r le = spec_unsigned16 le b0 b1"
  using assms
  by (simp add: read_unsigned_short_def spec_unsigned16_def be_pair le_pair)

lemma read_signed_short_pair:
  assumes "read_i2c_block_data bus a r 2 = Some [b0, b1]"
  shows "read_signed_short bus a r le =
           (if spec_unsigned16 le b0 b1 \<ge> 32768 then spec_unsigned16 le b0 b1 - 65536
            else spec_unsigned16 le b0 b1)"
  using assms
  by (simp add: read_signed_short_def spec_unsigned16_def be_pair le_pair Let_def)

text \<open>
  C9.  When the two-byte read returns the bytes \<open>b0, b1\<close>, the signed decode is the
  unsigned 16-bit value of the pair in the stated byte order, less 65536 when that value
  is at least 32768; this is the two's complement reading of the 16-bit word.  Read
  little-endian, the bytes FF FF give -1 and the bytes 00 80 give -32768.
\<close>

theorem read_signed_short_decode:
  assumes "read_i2c_block_data bus address register 2 = Some [b0, b1]"
  shows "read_unsigned_short bus address register little_endian = spec_unsigned16 little_endian b0 b1
       \<and> read_signed_short bus address register little_endian =
           (if spec_unsigned16 little_endian b0 b1 \<ge> 32768
            then spec_unsigned16 little_endian b0 b1 - 65536
            else spec_unsigned16 little_endian b0 b1)
       \<and> read_signed_short bus address register little_endian =
           sint (word_of_int (spec_unsigned16 little_endian b0 b1) :: 16 word)
       \<and> (b0 = 0xFF \<and> b1 = 0xFF \<longrightarrow> read_signed_short bus address register True = -1)
       \<and> (b0 = 0x00 \<and> b1 = 0x80 \<longrightarrow> read_signed_short bus address register True = -32768)"
proof -
  let ?u = "spec_unsigned16 little_endian b0 b1"
  have r: "0 \<le> ?u" "?u < 65536" using spec_unsigned16_range by auto
  have s: "read_signed_short bus address register le =
             (if spec_unsigned16 le b0 b1 \<ge> 32768 then spec_unsigned16 le b0 b1 - 65536
              else spec_unsigned16 le b0 b1)" for le
    by (rule read_signed_short_pair [OF assms])
  have "sint (word_of_int ?u :: 16 word) = (if ?u < 32768 then ?u else ?u - 65536)"
    by (rule sint16_of_int [OF r])
  then have w: "read_signed_short bus address register little_endian = sint (word_of_int ?u :: 16 word)"
    using s [of little_endian] by auto
  have e1: "b0 = 0xFF \<and> b1 = 0xFF \<longrightarrow> read_signed_short bus address register True = -1"
    using s [of True] by (simp add: spec_unsigned16_def)
  have e2: "b0 = 0x00 \<and> b1 = 0x80 \<longrightarrow> read_signed_short bus address register True = -32768"
    using s [of True] by (simp add: spec_unsigned16_def)
  show ?thesis
    using read_unsigned_short_pair [OF assms, of little_endian] s [of little_endian] w e1 e2
    by blast
qed

theorem read_signed_short_decode_witness:
  "read_signed_short (block_bus [0xFF, 0xFF]) BME280_ADDRESS BME280_REGISTER_DIG_H2 True = -1
   \<and> read_signed_short (block_bus [0x00, 0x80]) BME280_ADDRESS BME280_REGISTER_DIG_H2 True = -32768
   \<and> read_signed_short (block_bus [0x80, 0x00]) BME280_ADDRESS BME280_REGISTER_DIG_H2 False = -32768
   \<and> read_signed_short (block_bus [0x34, 0x12]) BME280_ADDRESS BME280_REGISTER_DIG_H2 True = 0x1234"
proof -
  have b: "read_i2c_block_data (block_bus [x, y]) BME280_ADDRESS BME280_REGISTER_DIG_H2 2 = Some [x, y]"
    for x y
    by (simp add: block_bus_def)
  show ?thesis
    using read_signed_short_decode [OF b [of "0xFF" "0xFF"], of True]
      read_signed_short_decode [OF b [of "0x00" "0x80"], of True]
      read_signed_short_decode [OF b [of "0x80" "0x00"], of False]
      read_signed_short_decode [OF b [of "0x34" "0x12"], of True]
    by (simp add: spec_unsigned16_def)
qed

subsection \<open>Calibration loader\<close>

lemma high_nibble_range: "0 \<le> drop_bit 4 (uint (b::byte)) \<and> drop_bit 4 (uint b) < 16"
proof -
  have "0 \<le> uint b" "uint b < 16 * 16" using uint_byte_bounds [of b] by simp_all
  then have "0 \<le> uint b div 16" "uint b div 16 < 16"
    by (simp_all add: pos_imp_zdiv_nonneg_iff div_less_iff_less_mult)
  then show ?thesis by (simp add: drop_bit_eq_div)
qed

lemma pack_H4: "push_bit 4 (uint (e4::byte)) OR (uint (e5::byte) AND 0x0F) = 16 * uint e4 + uint e5 mod 16"
  by (simp only: and_15_mod) (simp add: or_nibbles)

lemma pack_H5: "push_bit 4 (uint (e6::byte)) OR drop_bit 4 (uint (e5::byte)) = 16 * uint e6 + uint e5 div 16"
  using high_nibble_range [of e5] by (simp add: or_nibbles) (simp add: drop_bit_eq_div)

lemma read_calibration_data_H:
  assumes "read_byte_data bus address BME280_REGISTER_DIG_H1 = Some h1"
    and "read_byte_data bus address (BME280_REGISTER_DIG_H2 + 2) = Some h3"
    and "read_byte_data bus address (BME280_REGISTER_DIG_H2 + 3) = Some e4"
    and "read_byte_data bus address (BME280_REGISTER_DIG_H2 + 4) = Some e5"
    and "read_byte_data bus address (BME280_REGISTER_DIG_H2 + 5) = Some e6"
    and "read_byte_data bus address (BME280_REGISTER_DIG_H2 + 6) = Some h6"
  shows "calib_H (read_calibration_data bus address) =
           (uint h1, read_signed_short bus address BME280_REGISTER_DIG_H2 True, uint h3,
            push_bit 4 (uint e4) OR (uint e5 AND 0x0F),
            push_bit 4 (uint e6) OR drop_bit 4 (uint e5),
            if uint h6 > 127 then uint h6 - 256 else uint h6)"
  using assms by (simp add: read_calibration_data_def Let_def)

text \<open>
  C5 (as the code has it).  When the six single-byte calibration reads succeed, the loader
  returns \<open>H4 = (e4 << 4) | (e5 & 0xF)\<close>, that is \<open>16 * e4 + e5 mod 16\<close>, and
  \<open>H5 = (e6 << 4) | (e5 >> 4)\<close>, that is \<open>16 * e6 + e5 div 16\<close>, and \<open>H6\<close> is the raw
  byte less 256 when it exceeds 127, its two's complement reading.  For
  \<open>e4 = 0x12, e5 = 0x34, e6 = 0x56\<close> this gives \<open>H4 = 0x124\<close> and \<open>H5 = 0x563\<close>.
\<close>

theorem read_calibration_data_packed_fields:
  assumes "read_byte_data bus address BME280_REGISTER_DIG_H1 = Some h1"
    and "read_byte_data bus address (BME280_REGISTER_DIG_H2 + 2) = Some h3"
    and "read_byte_data bus address (BME280_REGISTER_DIG_H2 + 3) = Some e4"
    and "read_byte_data bus address (BME280_REGISTER_DIG_H2 + 4) = Some e5"
    and "read_byte_data bus address (BME280_REGISTER_DIG_H2 + 5) = Some e6"
    and "read_byte_data bus address (BME280_REGISTER_DIG_H2 + 6) = Some h6"
  shows "humidity_H4 (read_calibration_data bus address) = push_bit 4 (uint e4) OR (uint e5 AND 0x0F)
       \<and> humidity_H5 (read_calibration_data bus address) = push_bit 4 (uint e6) OR drop_bit 4 (uint e5)
       \<and> humidity_H6 (read_calibration_data bus address) = (if uint h6 > 127 then uint h6 - 256 else uint h6)
       \<and> humidity_H4 (read_calibration_data bus address) = 16 * uint e4 + uint e5 mod 16
       \<and> humidity_H5 (read_calibration_data bus address) = 16 * uint e6 + uint e5 div 16
       \<and> humidity_H6 (read_calibration_data bus address) = sint h6
       \<and> (e4 = 0x12 \<and> e5 = 0x34 \<and> e6 = 0x56 \<longrightarrow>
            humidity_H4 (read_calibration_data bus address) = 0x124
          \<and> humidity_H5 (read_calibration_data bus address) = 0x563)"
proof -
  note H = read_calibration_data_H [OF assms]
  have h4: "humidity_H4 (read_calibration_data bus address) = push_bit 4 (uint e4) OR (uint e5 AND 0x0F)"
    by (simp add: humidity_H4_def H)
  have h5: "humidity_H5 (read_calibration_data bus address) = push_bit 4 (uint e6) OR drop_bit 4 (uint e5)"
    by (simp add: humidity_H5_def H)
  have h6: "humidity_H6 (read_calibration_data bus address) = (if uint h6 > 127 then uint h6 - 256 else uint h6)"
    by (simp add: humidity_H6_def H)
  have a4: "humidity_H4 (read_calibration_data bus address) = 16 * uint e4 + uint e5 mod 16"
    by (simp only: h4 pack_H4)
  have a5: "humidity_H5 (read_calibration_data bus address) = 16 * uint e6 + uint e5 div 16"
    by (simp only: h5 pack_H5)
  have a6: "humidity_H6 (read_calibration_data bus address) = sint h6"
    by (simp only: h6 sint_byte)
  have ex: "e4 = 0x12 \<and> e5 = 0x34 \<and> e6 = 0x56 \<longrightarrow>
            humidity_H4 (read_calibration_data bus address) = 0x124
          \<and> humidity_H5 (read_calibration_data bus address) = 0x563"
    by (simp add: a4 a5)
  show ?thesis using h4 h5 h6 a4 a5 a6 ex by blast
qed

lemma packed_example_reads:
  "read_byte_data (register_bus packed_example) BME280_ADDRESS BME280_REGISTER_DIG_H1 = Some 75"
  "read_byte_data (register_bus packed_example) BME280_ADDRESS (BME280_REGISTER_DIG_H2 + 2) = Some 0"
  "read_byte_data (register_bus packed_example) BME280_ADDRESS (BME280_REGISTER_DIG_H2 + 3) = Some 0x12"
  "read_byte_data (register_bus packed_example) BME280_ADDRESS (BME280_REGISTER_DIG_H2 + 4) = Some 0x34"
  "read_byte_data (register_bus packed_example) BME280_ADDRESS (BME280_REGISTER_DIG_H2 + 5) = Some 0x56"
  "read_byte_data (register_bus packed_example) BME280_ADDRESS (BME280_REGISTER_DIG_H2 + 6) = Some 0xE2"
  by (simp_all add: register_bus_def packed_example_def BME280_REGISTER_DIG_H1_def BME280_REGISTER_DIG_H2_def)

theorem read_calibration_data_packed_fields_witness:
  "humidity_H4 (read_calibration_data (register_bus packed_example) BME280_ADDRESS) = 0x124
   \<and> humidity_H5 (read_calibration_data (register_bus packed_example) BME280_ADDRESS) = 0x563
   \<and> humidity_H6 (read_calibration_data (register_bus packed_example) BME280_ADDRESS) = -30"
  using read_calibration_data_packed_fields [OF packed_example_reads]
  by simp

text \<open>
  C5 (as stated).  On the bytes \<open>e4 = 0x12, e5 = 0x34, e6 = 0x56\<close> the loader does not
  return \<open>H4 = 0x123\<close>: the low nibble of \<open>0x34\<close> is 4, and \<open>H4\<close> is \<open>0x124\<close>.
\<close>

theorem packed_H4_counterexample:
  "\<not> (humidity_H4 (read_calibration_data (register_bus packed_example) BME280_ADDRESS) = 0x123
      \<and> humidity_H5 (read_calibration_data (register_bus packed_example) BME280_ADDRESS) = 0x563)"
proof -
  have "humidity_H4 (read_calibration_data (register_bus packed_example) BME280_ADDRESS) = 0x124"
    by (simp add: humidity_H4_def read_calibration_data_H [OF packed_example_reads])
  then show ?thesis by simp
qed

subsection \<open>Compensation engine\<close>


lemma py_int_sign: "py_int x = (if x < 0 then - \<lfloor>- x\<rfloor> else \<lfloor>x\<rfloor>)"
  by (simp add: py_int_def ceiling_def)

text \<open>
  C1.  For every raw humidity code, every six coefficients and every \<open>t_fine\<close>, the
  result of \<open>compensate_humidity\<close> lies between 0 and 100, both included, and it is
  exactly 0 when \<open>t_fine - 76800\<close> is 0.
\<close>

theorem compensate_humidity_range:
  "0 \<le> compensate_humidity raw_hum calib t_fine
   \<and> compensate_humidity raw_hum calib t_fine \<le> 100
   \<and> (real_of_int t_fine - 76800 = 0 \<longrightarrow> compensate_humidity raw_hum calib t_fine = 0)"
  by (cases calib) (simp add: compensate_humidity_def Let_def)

theorem compensate_humidity_range_witness:
  "compensate_humidity 30000 (75, 360, 0, 300, 50, 30) 76800 = 0
   \<and> 0 \<le> compensate_humidity 65535 (75, 360, 0, 300, 50, 30) 128422
   \<and> compensate_humidity 65535 (75, 360, 0, 300, 50, 30) 128422 \<le> 100"
  using compensate_humidity_range [of 30000 "(75, 360, 0, 300, 50, 30)" 76800]
    compensate_humidity_range [of 65535 "(75, 360, 0, 300, 50, 30)" 128422]
  by simp







subsection \<open>Signature function\<close>

text \<open>
  The model of the library against the second test case of RFC 4231: key \<open>Jefe\<close>,
  data \<open>what do ya want for nothing?\<close>.
\<close>

lemma hmac_sha256_rfc4231_case2:
  "upper (hexdigest (hmac_sha256 (encode_utf8 ''Jefe'')
     (encode_utf8 ''what do ya want for nothing?''))) =
     ''5BDCC146BF60754E6A042426089575C75A003F089D2739839DEC58B964EC3843''"
  by code_simp

lemma length_word32_bytes: "length (word32_bytes w) = 4"
  by (simp add: word32_bytes_def)

lemma length_state_bytes: "length (state_bytes st) = 32"
  by (cases st rule: state_bytes.cases) (simp add: length_word32_bytes)

lemma length_sha256: "length (sha256 m) = 32"
  by (simp add: sha256_def length_state_bytes)

lemma length_hmac_sha256: "length (hmac_sha256 key msg) = 32"
  by (simp add: hmac_sha256_def Let_def length_sha256)

lemma length_hexdigest: "length (hexdigest bs) = 2 * length bs"
  by (induction bs) (simp_all add: hexdigest_def)

lemma length_upper: "length (upper s) = length s"
  by (simp add: upper_def)

lemma low_nibble_less: "unat ((n::byte) AND 0x0F) < 16"
proof -
  have "n AND 0x0F \<le> 0x0F" by (rule word_and_le1)
  then have "unat (n AND 0x0F) \<le> unat (0x0F :: byte)" by (simp add: word_le_nat_alt)
  then show ?thesis by simp
qed

lemma hex_digit_lower: "hex_digit n \<in> set ''0123456789abcdef''"
proof -
  have "unat (n AND 0x0F) < length ''0123456789abcdef''"
    using low_nibble_less [of n] by simp
  then show ?thesis unfolding hex_digit_def by (rule nth_mem)
qed

lemma upper_hex_digits: "map upper_char ''0123456789abcdef'' = ''0123456789ABCDEF''"
  by code_simp

lemma upper_char_hex:
  assumes "c \<in> set ''0123456789abcdef''"
  shows "upper_char c \<in> set ''0123456789ABCDEF''"
proof -
  have "upper_char c \<in> upper_char ` set ''0123456789abcdef''"
    using assms by (rule imageI)
  then have "upper_char c \<in> set (map upper_char ''0123456789abcdef'')"
    by (simp only: set_map)
  then show ?thesis by (simp only: upper_hex_digits)
qed

lemma hexdigest_chars: "set (hexdigest bs) \<subseteq> set ''0123456789abcdef''"
proof (induction bs)
  case Nil
  show ?case by (simp add: hexdigest_def)
next
  case (Cons b bs)
  have "hexdigest (b # bs) = hex_digit (drop_bit 4 b) # hex_digit b # hexdigest bs"
    by (simp add: hexdigest_def)
  then show ?case
    using Cons hex_digit_lower [of "drop_bit 4 b"] hex_digit_lower [of b]
    by (simp only: set_simps insert_subset)
qed

lemma upper_hexdigest_chars: "set (upper (hexdigest bs)) \<subseteq> set ''0123456789ABCDEF''"
proof
  fix c assume "c \<in> set (upper (hexdigest bs))"
  then obtain d where d: "d \<in> set (hexdigest bs)" "c = upper_char d"
    by (auto simp: upper_def)
  then have "d \<in> set ''0123456789abcdef''" using hexdigest_chars by blast
  then show "c \<in> set ''0123456789ABCDEF''" unfolding d(2) by (rule upper_char_hex)
qed

text \<open>
  C7.  The signature is a function of the client identifier, the secret, the timestamp
  and the optional access token alone (the \<open>body\<close> argument has no influence): it
  is the HMAC-SHA256, keyed by the secret, of the client identifier followed by the
  access token, if present, and the timestamp string, written in hexadecimal and
  uppercased.  It always has 64 characters, each an uppercase hexadecimal digit.
\<close>

theorem generate_signature_digest:
  "generate_signature client_id client_secret timestamp access_token body =
     upper (hexdigest (hmac_sha256 (encode_utf8 client_secret)
       (encode_utf8 (spec_string_to_sign client_id access_token timestamp))))
   \<and> length (generate_signature client_id client_secret timestamp access_token body) = 64
   \<and> set (generate_signature client_id client_secret timestamp access_token body)
        \<subseteq> set ''0123456789ABCDEF''
   \<and> generate_signature client_id client_secret timestamp access_token body' =
       generate_signature client_id client_secret timestamp access_token body"
proof -
  have e: "generate_signature client_id client_secret timestamp access_token b =
     upper (hexdigest (hmac_sha256 (encode_utf8 client_secret)
       (encode_utf8 (spec_string_to_sign client_id access_token timestamp))))" for b
    by (cases access_token) (simp_all add: generate_signature_def spec_string_to_sign_def Let_def)
  have l: "length (upper (hexdigest (hmac_sha256 k m))) = 64" for k m
    by (simp add: length_upper length_hexdigest length_hmac_sha256)
  show ?thesis
    by (simp only: e l upper_hexdigest_chars)
qed

theorem generate_signature_digest_witness:
  "length (generate_signature ''client'' ''secret'' 1700000000123 (Some ''token'') None) = 64
   \<and> generate_signature ''client'' ''secret'' 1700000000123 (Some ''token'') (Some ''{}'') =
       generate_signature ''client'' ''secret'' 1700000000123 (Some ''token'') None"
proof -
  note t = generate_signature_digest
    [of "''client''" "''secret''" 1700000000123 "Some ''token''" None "Some ''{}''"]
  show ?thesis
    using t [THEN conjunct2, THEN conjunct1] t [THEN conjunct2, THEN conjunct2, THEN conjunct2]
    by (rule conjI)
qed

subsection \<open>Token manager and cloud sync\<close>

lemma get_tuya_token_events:
  "\<exists>url headers. snd (snd (get_tuya_token cfg io s)) = [HttpGet url headers]"
  by (simp add: get_tuya_token_def Let_def split: http_reply.split option.split)

lemma get_tuya_token_keeps:
  "sensor_data (fst (snd (get_tuya_token cfg io s))) = sensor_data s
   \<and> last_tuya_update (fst (snd (get_tuya_token cfg io s))) = last_tuya_update s"
  by (simp add: get_tuya_token_def Let_def split: http_reply.split option.split)

lemma get_tuya_token_outcome:
  "fst (get_tuya_token cfg io s) = fst (get_tuya_token cfg io s')"
  by (simp add: get_tuya_token_def Let_def split: http_reply.split option.split)

lemma token_needs_refresh_sensor_data [simp]:
  "token_needs_refresh io (s\<lparr>sensor_data := d\<rparr>) = token_needs_refresh io s"
  by (simp add: token_needs_refresh_def split: option.split)

lemma send_to_tuya_refused:
  assumes "token_needs_refresh io s" and "\<not> fst (get_tuya_token cfg io s)"
  shows "send_to_tuya cfg io s t h hi =
           (False, fst (snd (get_tuya_token cfg io s)), snd (snd (get_tuya_token cfg io s)))"
proof -
  obtain ok s1 ev1 where g: "get_tuya_token cfg io s = (ok, s1, ev1)"
    by (cases "get_tuya_token cfg io s") auto
  with assms have "\<not> ok" by simp
  then show ?thesis using assms(1) g by (simp add: send_to_tuya_def)
qed

lemma send_to_tuya_events:
  "\<exists>url headers.
     snd (snd (send_to_tuya cfg io s t h hi)) =
       (if token_needs_refresh io s then
          (if fst (get_tuya_token cfg io s)
           then snd (snd (get_tuya_token cfg io s)) @
                [HttpPost url headers
                   [(TUYA_TEMP_DP_ID, py_int (t * 10)), (TUYA_HUMID_DP_ID, py_int (h * 10)),
                    (TUYA_HEAT_DP_ID, py_int (hi * 10))]]
           else snd (snd (get_tuya_token cfg io s)))
        else [HttpPost url headers
                [(TUYA_TEMP_DP_ID, py_int (t * 10)), (TUYA_HUMID_DP_ID, py_int (h * 10)),
                 (TUYA_HEAT_DP_ID, py_int (hi * 10))]])"
proof -
  obtain ok s1 ev1 where g: "get_tuya_token cfg io s = (ok, s1, ev1)"
    by (cases "get_tuya_token cfg io s") auto
  show ?thesis
  proof (cases "token_needs_refresh io s")
    case True
    then show ?thesis using g
      by (cases ok) (simp_all add: send_to_tuya_def Let_def split: http_reply.split option.split)
  next
    case False
    then show ?thesis
      by (simp add: send_to_tuya_def Let_def split: http_reply.split option.split)
  qed
qed

lemma send_to_tuya_keeps:
  "sensor_data (fst (snd (send_to_tuya cfg io s t h hi))) = sensor_data s
   \<and> last_tuya_update (fst (snd (send_to_tuya cfg io s t h hi))) = last_tuya_update s"
proof -
  obtain ok s1 ev1 where g: "get_tuya_token cfg io s = (ok, s1, ev1)"
    by (cases "get_tuya_token cfg io s") auto
  have k: "sensor_data s1 = sensor_data s \<and> last_tuya_update s1 = last_tuya_update s"
    using get_tuya_token_keeps [of cfg io s] g by simp
  show ?thesis
  proof (cases "token_needs_refresh io s")
    case True
    then show ?thesis using g k
      by (cases ok) (simp_all add: send_to_tuya_def Let_def split: http_reply.split option.split)
  next
    case False
    then show ?thesis
      by (simp add: send_to_tuya_def Let_def split: http_reply.split option.split)
  qed
qed


lemma pushed_commands_token_only:
  "pushed_commands (snd (snd (get_tuya_token cfg io s))) = []"
  using get_tuya_token_events [of cfg io s] by auto






subsection \<open>Acquisition loop\<close>

lemma loop_body_skip:
  assumes "read_raw_data (cycle_bus io) BME280_ADDRESS = (temp_raw, press_raw, hum_raw)"
    and "invalid_reading temp_raw hum_raw"
  shows "loop_body cfg calib io s = (s, [Sleep 1])"
  using assms by (simp add: loop_body_def)

lemma loop_body_publish:
  assumes "read_raw_data (cycle_bus io) BME280_ADDRESS = (temp_raw, press_raw, hum_raw)"
    and "\<not> invalid_reading temp_raw hum_raw"
  shows "sensor_data (fst (loop_body cfg calib io s)) = reading_of calib temp_raw hum_raw"
proof -
  obtain temperature t_fine where
    c: "compensate_temperature temp_raw (calib_T calib) = (temperature, t_fine)"
    by (cases "compensate_temperature temp_raw (calib_T calib)") auto
  let ?h = "compensate_humidity hum_raw (calib_H calib) t_fine"
  let ?hi = "calculate_heat_index temperature ?h"
  let ?s1 = "s\<lparr>sensor_data := \<lparr>sd_temperature = Some temperature, sd_humidity = Some ?h,
                                 sd_heat_index = Some ?hi\<rparr>\<rparr>"
  obtain ok s2 ev where
    t: "send_to_tuya cfg (cloud io) ?s1 temperature ?h ?hi = (ok, s2, ev)"
    by (cases "send_to_tuya cfg (cloud io) ?s1 temperature ?h ?hi") auto
  have "sensor_data s2 = sensor_data ?s1"
    using send_to_tuya_keeps [of cfg "cloud io" ?s1 temperature ?h ?hi] t by simp
  then show ?thesis
    using assms c t by (simp add: loop_body_def reading_of_def Let_def)
qed

lemma loop_body_waits:
  assumes "read_raw_data (cycle_bus io) BME280_ADDRESS = (temp_raw, press_raw, hum_raw)"
    and "\<not> invalid_reading temp_raw hum_raw"
  shows "last (snd (loop_body cfg calib io s)) = Sleep 2"
  using assms
  by (simp add: loop_body_def Let_def split: prod.split)

lemma loop_body_deferred:
  assumes raw: "read_raw_data (cycle_bus io) BME280_ADDRESS = (temp_raw, press_raw, hum_raw)"
    and valid: "\<not> invalid_reading temp_raw hum_raw"
    and due: "tuya_update_interval \<le> time_loop io - last_tuya_update s"
    and needs: "token_needs_refresh (cloud io) s"
    and failed: "\<not> fst (get_tuya_token cfg (cloud io) s)"
  shows "last_tuya_update (fst (loop_body cfg calib io s)) = last_tuya_update s
       \<and> (\<exists>url headers. snd (loop_body cfg calib io s) = [HttpGet url headers, Sleep 2])"
proof -
  obtain temperature t_fine where
    c: "compensate_temperature temp_raw (calib_T calib) = (temperature, t_fine)"
    by (cases "compensate_temperature temp_raw (calib_T calib)") auto
  let ?h = "compensate_humidity hum_raw (calib_H calib) t_fine"
  let ?hi = "calculate_heat_index temperature ?h"
  let ?s1 = "s\<lparr>sensor_data := \<lparr>sd_temperature = Some temperature, sd_humidity = Some ?h,
                                 sd_heat_index = Some ?hi\<rparr>\<rparr>"
  have n1: "token_needs_refresh (cloud io) ?s1" using needs by simp
  have f1: "\<not> fst (get_tuya_token cfg (cloud io) ?s1)"
    using failed get_tuya_token_outcome [of cfg "cloud io" ?s1 s] by simp
  have t: "send_to_tuya cfg (cloud io) ?s1 temperature ?h ?hi =
             (False, fst (snd (get_tuya_token cfg (cloud io) ?s1)),
              snd (snd (get_tuya_token cfg (cloud io) ?s1)))"
    by (rule send_to_tuya_refused [OF n1 f1])
  obtain url headers where
    e: "snd (snd (get_tuya_token cfg (cloud io) ?s1)) = [HttpGet url headers]"
    using get_tuya_token_events [of cfg "cloud io" ?s1] by blast
  have k: "last_tuya_update (fst (snd (get_tuya_token cfg (cloud io) ?s1))) = last_tuya_update s"
    using get_tuya_token_keeps [of cfg "cloud io" ?s1] by simp
  have b: "loop_body cfg calib io s =
             (fst (snd (get_tuya_token cfg (cloud io) ?s1)), [HttpGet url headers, Sleep 2])"
    using raw valid due c t e by (simp add: loop_body_def Let_def)
  show ?thesis using b k by simp
qed

lemma send_to_tuya_refresh_events:
  assumes "token_needs_refresh io s"
  shows "\<exists>gurl gheaders purl pheaders commands.
           snd (snd (send_to_tuya cfg io s t h hi)) =
             (if fst (get_tuya_token cfg io s)
              then [HttpGet gurl gheaders, HttpPost purl pheaders commands]
              else [HttpGet gurl gheaders])"
proof -
  obtain gurl gheaders where g: "snd (snd (get_tuya_token cfg io s)) = [HttpGet gurl gheaders]"
    using get_tuya_token_events [of cfg io s] by blast
  obtain purl pheaders where
    "snd (snd (send_to_tuya cfg io s t h hi)) =
       (if fst (get_tuya_token cfg io s)
        then snd (snd (get_tuya_token cfg io s)) @
             [HttpPost purl pheaders
                [(TUYA_TEMP_DP_ID, py_int (t * 10)), (TUYA_HUMID_DP_ID, py_int (h * 10)),
                 (TUYA_HEAT_DP_ID, py_int (hi * 10))]]
        else snd (snd (get_tuya_token cfg io s)))"
    using send_to_tuya_events [of cfg io s t h hi] assms by auto
  then show ?thesis using g by auto
qed

text \<open>
  C6.  When no usable token is held (none, an empty one, or one past its expiry),
  \<open>send_to_tuya\<close> issues exactly one token request, and it is the first request.  If
  the refresh succeeds, one push follows.  If it fails, the call returns \<open>False\<close>, no
  push request is issued and \<open>last_tuya_update\<close> is as before; in a pass of the loop
  with a valid sample and a push that is due, \<open>last_tuya_update\<close> then stays unchanged,
  so the push is due again at every later clock reading.
\<close>

theorem cloud_sync_refresh_once:
  assumes "token_needs_refresh io s"
  shows "length (filter is_token_request (snd (snd (send_to_tuya cfg io s t h hi)))) = 1
       \<and> is_token_request (hd (snd (snd (send_to_tuya cfg io s t h hi))))
       \<and> (fst (get_tuya_token cfg io s) \<longrightarrow>
            length (filter is_push_request (snd (snd (send_to_tuya cfg io s t h hi)))) = 1)
       \<and> (\<not> fst (get_tuya_token cfg io s) \<longrightarrow>
            \<not> fst (send_to_tuya cfg io s t h hi)
          \<and> filter is_push_request (snd (snd (send_to_tuya cfg io s t h hi))) = []
          \<and> last_tuya_update (fst (snd (send_to_tuya cfg io s t h hi))) = last_tuya_update s)
       \<and> (\<not> fst (get_tuya_token cfg io s) \<and> cloud cio = io
            \<and> \<not> invalid_reading (fst (read_raw_data (cycle_bus cio) BME280_ADDRESS))
                                 (snd (snd (read_raw_data (cycle_bus cio) BME280_ADDRESS)))
            \<and> tuya_update_interval \<le> time_loop cio - last_tuya_update s \<longrightarrow>
            last_tuya_update (fst (loop_body cfg calib cio s)) = last_tuya_update s
          \<and> filter is_push_request (snd (loop_body cfg calib cio s)) = []
          \<and> length (filter is_token_request (snd (loop_body cfg calib cio s))) = 1
          \<and> (time_loop cio \<le> later \<longrightarrow>
               tuya_update_interval \<le> later - last_tuya_update (fst (loop_body cfg calib cio s))))"
proof -
  let ?ev = "snd (snd (send_to_tuya cfg io s t h hi))"
  obtain gurl gheaders purl pheaders commands where
    e: "?ev = (if fst (get_tuya_token cfg io s)
               then [HttpGet gurl gheaders, HttpPost purl pheaders commands]
               else [HttpGet gurl gheaders])"
    using send_to_tuya_refresh_events [OF assms, of cfg t h hi] by blast
  have a: "length (filter is_token_request ?ev) = 1 \<and> is_token_request (hd ?ev)"
    by (simp add: e)
  have b: "fst (get_tuya_token cfg io s) \<longrightarrow> length (filter is_push_request ?ev) = 1"
    by (simp add: e)
  have c: "\<not> fst (get_tuya_token cfg io s) \<longrightarrow>
            \<not> fst (send_to_tuya cfg io s t h hi)
          \<and> filter is_push_request ?ev = []
          \<and> last_tuya_update (fst (snd (send_to_tuya cfg io s t h hi))) = last_tuya_update s"
  proof
    assume f: "\<not> fst (get_tuya_token cfg io s)"
    have "\<not> fst (send_to_tuya cfg io s t h hi)"
      by (simp add: send_to_tuya_refused [OF assms f])
    moreover have "filter is_push_request ?ev = []"
      using f by (simp add: e)
    moreover have "last_tuya_update (fst (snd (send_to_tuya cfg io s t h hi))) = last_tuya_update s"
      using send_to_tuya_keeps [of cfg io s t h hi] by blast
    ultimately show "\<not> fst (send_to_tuya cfg io s t h hi)
          \<and> filter is_push_request ?ev = []
          \<and> last_tuya_update (fst (snd (send_to_tuya cfg io s t h hi))) = last_tuya_update s"
      by blast
  qed
  have d: "last_tuya_update (fst (loop_body cfg calib cio s)) = last_tuya_update s
          \<and> filter is_push_request (snd (loop_body cfg calib cio s)) = []
          \<and> length (filter is_token_request (snd (loop_body cfg calib cio s))) = 1
          \<and> (time_loop cio \<le> later \<longrightarrow>
               tuya_update_interval \<le> later - last_tuya_update (fst (loop_body cfg calib cio s)))"
    if f: "\<not> fst (get_tuya_token cfg io s)" and i: "cloud cio = io"
      and v: "\<not> invalid_reading (fst (read_raw_data (cycle_bus cio) BME280_ADDRESS))
                                 (snd (snd (read_raw_data (cycle_bus cio) BME280_ADDRESS)))"
      and due: "tuya_update_interval \<le> time_loop cio - last_tuya_update s"
  proof -
    obtain temp_raw press_raw hum_raw where
      r: "read_raw_data (cycle_bus cio) BME280_ADDRESS = (temp_raw, press_raw, hum_raw)"
      by (cases "read_raw_data (cycle_bus cio) BME280_ADDRESS") auto
    have v': "\<not> invalid_reading temp_raw hum_raw" using v r by simp
    have n': "token_needs_refresh (cloud cio) s" using assms i by simp
    have f': "\<not> fst (get_tuya_token cfg (cloud cio) s)" using f i by simp
    note L = loop_body_deferred [OF r v' due n' f', of calib]
    from L obtain url headers where
      ev: "snd (loop_body cfg calib cio s) = [HttpGet url headers, Sleep 2]" by blast
    from L have l: "last_tuya_update (fst (loop_body cfg calib cio s)) = last_tuya_update s"
      by blast
    show ?thesis using due by (simp add: ev l)
  qed
  show ?thesis using a b c d by blast
qed

text \<open>
  C8.  When the decoded raw temperature is \<open>0x80000\<close> or \<open>0xFFFFF\<close>, or the raw
  humidity is \<open>0x8000\<close> or \<open>0xFFFF\<close>, the pass returns the state unchanged (nothing is
  published), its only effect is the wait of one second, and the loop goes on with the
  next pass.
\<close>

theorem loop_skips_invalid_sample:
  assumes "read_raw_data (cycle_bus io) BME280_ADDRESS = (temp_raw, press_raw, hum_raw)"
    and "temp_raw = 0x80000 \<or> temp_raw = 0xFFFFF \<or> hum_raw = 0x8000 \<or> hum_raw = 0xFFFF"
  shows "loop_body cfg calib io s = (s, [Sleep 1])
       \<and> sensor_data (fst (loop_body cfg calib io s)) = sensor_data s
       \<and> sampling_loop cfg calib (io # ios) s =
           (fst (sampling_loop cfg calib ios s), Sleep 1 # snd (sampling_loop cfg calib ios s))"
proof -
  have "invalid_reading temp_raw hum_raw"
    using assms(2) by (auto simp: invalid_reading_def)
  then have b: "loop_body cfg calib io s = (s, [Sleep 1])"
    by (rule loop_body_skip [OF assms(1)])
  then show ?thesis by (simp add: split_beta)
qed

text \<open>
  C10.  When the burst read raises, \<open>read_raw_data\<close> returns \<open>(0, 0, 0)\<close>; zero is
  none of the invalid-reading codes, so the pass does not skip: it publishes the reading
  compensated from the raw codes 0 and 0 and ends with the wait of two seconds.
\<close>

theorem bus_fault_publishes_zero_reading:
  assumes "read_i2c_block_data (cycle_bus io) BME280_ADDRESS BME280_REGISTER_PRESS 8 = None"
  shows "read_raw_data (cycle_bus io) BME280_ADDRESS = (0, 0, 0)
       \<and> \<not> invalid_reading 0 0
       \<and> loop_body cfg calib io s \<noteq> (s, [Sleep 1])
       \<and> sensor_data (fst (loop_body cfg calib io s)) = reading_of calib 0 0
       \<and> sd_temperature (sensor_data (fst (loop_body cfg calib io s))) =
           Some (fst (compensate_temperature 0 (calib_T calib)))
       \<and> sd_humidity (sensor_data (fst (loop_body cfg calib io s))) =
           Some (compensate_humidity 0 (calib_H calib) (snd (compensate_temperature 0 (calib_T calib))))
       \<and> last (snd (loop_body cfg calib io s)) = Sleep 2"
proof -
  have r: "read_raw_data (cycle_bus io) BME280_ADDRESS = (0, 0, 0)"
    using assms by (simp add: read_raw_data_def)
  have v: "\<not> invalid_reading 0 0" by (simp add: invalid_reading_def)
  have p: "sensor_data (fst (loop_body cfg calib io s)) = reading_of calib 0 0"
    by (rule loop_body_publish [OF r v])
  have w: "last (snd (loop_body cfg calib io s)) = Sleep 2"
    by (rule loop_body_waits [OF r v])
  have n: "loop_body cfg calib io s \<noteq> (s, [Sleep 1])"
  proof
    assume "loop_body cfg calib io s = (s, [Sleep 1])"
    then have "last (snd (loop_body cfg calib io s)) = Sleep 1" by simp
    with w show False by simp
  qed
  show ?thesis using r v p w n by (simp add: reading_of_def Let_def)
qed

lemma refresh_fails_on_fault: "\<not> fst (get_tuya_token cfg (example_cloud Fault pr) s)"
  by (simp add: get_tuya_token_def example_cloud_def Let_def)

lemma refresh_granted: "fst (get_tuya_token cfg (example_cloud granted pr) s)"
  by (simp add: get_tuya_token_def example_cloud_def granted_def Let_def)

lemma initial_needs_refresh: "token_needs_refresh io initial_globals"
  by (simp add: token_needs_refresh_def initial_globals_def)

lemma read_raw_ordinary:
  "read_raw_data (block_bus ordinary_burst) BME280_ADDRESS = (0x7EEC0, 0x50000, 0x7530)"
  by (simp add: read_raw_data_def block_bus_def ordinary_burst_def)

lemma read_raw_sentinel:
  "read_raw_data (block_bus sentinel_burst) BME280_ADDRESS = (0x80000, 0x50000, 0x7530)"
  by (simp add: read_raw_data_def block_bus_def sentinel_burst_def)

theorem cloud_sync_refresh_once_witness:
  "\<not> fst (send_to_tuya example_config (example_cloud Fault accepted) initial_globals 25.1875 50.4375 25.1875)
   \<and> filter is_push_request
        (snd (snd (send_to_tuya example_config (example_cloud Fault accepted) initial_globals
           25.1875 50.4375 25.1875))) = []
   \<and> length (filter is_token_request
        (snd (snd (send_to_tuya example_config (example_cloud Fault accepted) initial_globals
           25.1875 50.4375 25.1875)))) = 1
   \<and> last_tuya_update
        (fst (loop_body example_config default_calibration
           (example_cycle (block_bus ordinary_burst) Fault accepted) initial_globals)) = 0
   \<and> filter is_push_request
        (snd (loop_body example_config default_calibration
           (example_cycle (block_bus ordinary_burst) Fault accepted) initial_globals)) = []
   \<and> length (filter is_push_request
        (snd (snd (send_to_tuya example_config (example_cloud granted accepted) initial_globals
           25.1875 50.4375 25.1875)))) = 1"
proof -
  let ?cio = "example_cycle (block_bus ordinary_burst) Fault accepted"
  have c: "cloud ?cio = example_cloud Fault accepted" by (simp add: example_cycle_def)
  have v: "\<not> invalid_reading (fst (read_raw_data (cycle_bus ?cio) BME280_ADDRESS))
                               (snd (snd (read_raw_data (cycle_bus ?cio) BME280_ADDRESS)))"
    by (simp add: example_cycle_def read_raw_ordinary invalid_reading_def)
  have d: "tuya_update_interval \<le> time_loop ?cio - last_tuya_update initial_globals"
    by (simp add: example_cycle_def tuya_update_interval_def initial_globals_def)
  have z: "last_tuya_update initial_globals = 0" by (simp add: initial_globals_def)
  note F = cloud_sync_refresh_once [OF initial_needs_refresh,
      of example_config "example_cloud Fault accepted" "25.1875" "50.4375" "25.1875"
         ?cio default_calibration 2000]
  note G = cloud_sync_refresh_once [OF initial_needs_refresh,
      of example_config "example_cloud granted accepted" "25.1875" "50.4375" "25.1875"
         ?cio default_calibration 2000]
  show ?thesis
    using F G refresh_fails_on_fault [of example_config accepted initial_globals]
      refresh_granted [of example_config accepted initial_globals] c v d z
    by simp
qed

theorem loop_skips_invalid_sample_witness:
  "loop_body example_config default_calibration
     (example_cycle (block_bus sentinel_burst) granted accepted) initial_globals =
     (initial_globals, [Sleep 1])
   \<and> sampling_loop example_config default_calibration
       [example_cycle (block_bus sentinel_burst) granted accepted] initial_globals =
     (initial_globals, [Sleep 1])"
proof -
  have r: "read_raw_data (cycle_bus (example_cycle (block_bus sentinel_burst) granted accepted))
             BME280_ADDRESS = (0x80000, 0x50000, 0x7530)"
    by (simp add: example_cycle_def read_raw_sentinel)
  have s: "(0x80000::int) = 0x80000 \<or> (0x80000::int) = 0xFFFFF \<or> (0x7530::int) = 0x8000
             \<or> (0x7530::int) = 0xFFFF"
    by simp
  show ?thesis
    using loop_skips_invalid_sample [OF r s, of example_config default_calibration initial_globals "[]"]
    by simp
qed

lemma zero_code_temperature:
  "compensate_temperature 0 (27504, 26435, -1000) = (- (721299 / 5120), - 721299)"
proof -
  have v: "temperature_var_sum 0 (27504, 26435, -1000) = - (23635553805 / 32768)"
    by (simp add: temperature_var_sum_def power2_eq_square)
  have c: "\<lceil>- (23635553805 / 32768) :: real\<rceil> = - 721299" by (simp add: ceiling_eq_iff)
  have "snd (compensate_temperature 0 (27504, 26435, -1000)) =
          py_int (temperature_var_sum 0 (27504, 26435, -1000))"
    by (simp add: compensate_temperature_def temperature_var_sum_def Let_def)
  also have "\<dots> = - 721299"
    by (simp only: v) (simp add: py_int_def c)
  finally have t: "snd (compensate_temperature 0 (27504, 26435, -1000)) = - 721299" .
  have "fst (compensate_temperature 0 (27504, 26435, -1000)) =
          of_int (snd (compensate_temperature 0 (27504, 26435, -1000))) / 5120"
    by (simp add: compensate_temperature_def Let_def)
  then have "fst (compensate_temperature 0 (27504, 26435, -1000)) = - (721299 / 5120)"
    by (simp only: t)
  with t show ?thesis by (simp add: prod_eq_iff)
qed

lemma zero_code_humidity:
  "compensate_humidity 0 (75, 360, 0, 300, 50, 30) (- 721299) = 0"
  by (simp add: compensate_humidity_def Let_def)

theorem bus_fault_publishes_zero_reading_witness:
  "read_raw_data (register_bus []) BME280_ADDRESS = (0, 0, 0)
   \<and> sd_temperature (sensor_data (fst (loop_body example_config default_calibration
        (example_cycle (register_bus []) granted accepted) initial_globals))) = Some (- (721299 / 5120))
   \<and> sd_humidity (sensor_data (fst (loop_body example_config default_calibration
        (example_cycle (register_bus []) granted accepted) initial_globals))) = Some 0"
proof -
  have b: "cycle_bus (example_cycle (register_bus []) granted accepted) = register_bus []"
    by (simp add: example_cycle_def)
  have f: "read_i2c_block_data (cycle_bus (example_cycle (register_bus []) granted accepted))
             BME280_ADDRESS BME280_REGISTER_PRESS 8 = None"
    by (simp only: b) (simp add: register_bus_def)
  have T: "calib_T default_calibration = (27504, 26435, -1000)"
    and H: "calib_H default_calibration = (75, 360, 0, 300, 50, 30)"
    by (simp_all add: default_calibration_def)
  note W = bus_fault_publishes_zero_reading
    [OF f, of example_config default_calibration initial_globals,
     unfolded b T H zero_code_temperature zero_code_humidity fst_conv snd_conv]
  show ?thesis using W by blast
qed

end
